theory Spec2Isabelle
  imports Main "HOL-Library.Word"
begin

section \<open>JavaScript strings and the string operations the adapters use\<close>

text \<open>
  A JavaScript string is a sequence of UTF-16 code units; a \<open>Uint8Array\<close> is a sequence
  of bytes.
\<close>

type_synonym byte = "8 word"
type_synonym code_unit = "16 word"
type_synonym jsstring = "code_unit list"

definition newline :: code_unit where
  "newline = 0x0A"

text \<open>
  \<open>String.prototype.split(sep)\<close> for a one-unit separator: the pieces between the
  separators, always at least one piece (\<open>''.split('\n')\<close> is \<open>['']\<close>).
\<close>

fun split_on :: "'a \<Rightarrow> 'a list \<Rightarrow> 'a list list" where
  "split_on sep [] = [[]]"
| "split_on sep (c # cs) =
     (if c = sep then [] # split_on sep cs
      else (case split_on sep cs of
              [] \<Rightarrow> [[c]]
            | l # ls \<Rightarrow> (c # l) # ls))"

text \<open>
  The code units \<open>String.prototype.trim\<close> strips: ECMAScript's WhiteSpace and
  LineTerminator.
\<close>

definition is_js_whitespace :: "code_unit \<Rightarrow> bool" where
  "is_js_whitespace c \<longleftrightarrow>
     c \<in> {0x0009, 0x000A, 0x000B, 0x000C, 0x000D, 0x0020, 0x00A0, 0x1680,
          0x2000, 0x2001, 0x2002, 0x2003, 0x2004, 0x2005, 0x2006, 0x2007,
          0x2008, 0x2009, 0x200A, 0x2028, 0x2029, 0x202F, 0x205F, 0x3000, 0xFEFF}"

definition trim :: "jsstring \<Rightarrow> jsstring" where
  "trim s = rev (dropWhile is_js_whitespace (rev (dropWhile is_js_whitespace s)))"

text \<open>A string is truthy when it is not empty.\<close>

definition truthy :: "jsstring \<Rightarrow> bool" where
  "truthy s \<longleftrightarrow> s \<noteq> []"

text \<open>\<open>lines.pop() || ''\<close>: the last element, the empty string for an empty array.\<close>

definition pop_or_empty :: "jsstring list \<Rightarrow> jsstring" where
  "pop_or_empty ls = (if ls = [] then [] else last ls)"

definition starts_with :: "jsstring \<Rightarrow> jsstring \<Rightarrow> bool" where
  "starts_with s p \<longleftrightarrow> take (length p) s = p"

section \<open>The connection adapters' line reader\<close>

text \<open>
  \<open>TextDecoder\<close> is a platform object. With \<open>{stream: true}\<close> it is a state machine over
  bytes: it consumes one byte at a time, emits zero or more code units and keeps the
  bytes of an unfinished sequence in its state. The machine is a parameter: its step
  function and the state of a new decoder.
\<close>

type_synonym 'd decoder_step = "'d \<Rightarrow> byte \<Rightarrow> 'd \<times> jsstring"

fun decode :: "'d decoder_step \<Rightarrow> 'd \<Rightarrow> byte list \<Rightarrow> 'd \<times> jsstring" where
  "decode step d [] = (d, [])"
| "decode step d (b # bs) =
     (case step d b of
        (d1, out1) \<Rightarrow> (case decode step d1 bs of (d2, out2) \<Rightarrow> (d2, out1 @ out2)))"

text \<open>
  The lines of a buffer that are yielded: every complete line whose \<open>trim()\<close> is not
  empty, untrimmed.
\<close>

definition complete_lines :: "jsstring \<Rightarrow> jsstring list" where
  "complete_lines buffer = filter (\<lambda>line. truthy (trim line)) (butlast (split_on newline buffer))"

definition remaining :: "jsstring \<Rightarrow> jsstring list" where
  "remaining buffer = (if truthy (trim buffer) then [buffer] else [])"

text \<open>
  \<open>readStreamLines\<close>. The reader is the list of the values its \<open>read()\<close> returns before
  \<open>done\<close>; \<open>aborted k\<close> is \<open>abortSignal?.aborted\<close> when the loop tests it for the
  \<open>k\<close>-th time. The result is the list of the lines the generator yields.
\<close>

fun read_loop ::
  "'d decoder_step \<Rightarrow> (nat \<Rightarrow> bool) \<Rightarrow> nat \<Rightarrow> 'd \<Rightarrow> jsstring \<Rightarrow> byte list list \<Rightarrow> jsstring list"
where
  "read_loop step aborted k d buffer [] = remaining buffer"
| "read_loop step aborted k d buffer (v # reads) =
     (if aborted k then remaining buffer
      else (case decode step d v of
              (d', text) \<Rightarrow>
                complete_lines (buffer @ text)
                @ read_loop step aborted (Suc k) d'
                    (pop_or_empty (split_on newline (buffer @ text))) reads))"

definition readStreamLines ::
  "'d decoder_step \<Rightarrow> 'd \<Rightarrow> (nat \<Rightarrow> bool) \<Rightarrow> byte list list \<Rightarrow> jsstring list"
where
  "readStreamLines step d0 aborted reads = read_loop step aborted 0 d0 [] reads"

text \<open>A run in which the abort signal is never raised.\<close>

definition never_aborted :: "nat \<Rightarrow> bool" where
  "never_aborted k = False"

text \<open>
  The reference the reader is compared with: the non blank pieces of the whole text.
\<close>

definition lines_of :: "jsstring \<Rightarrow> jsstring list" where
  "lines_of s = filter (\<lambda>line. truthy (trim line)) (split_on newline s)"

text \<open>
  A decoder for examples: UTF-8 on ASCII bytes (a byte below \<open>0x80\<close> is its own code
  unit); every other byte is replaced by U+FFFD.
\<close>

definition ascii_step :: "unit decoder_step" where
  "ascii_step d b = (d, [if b < 0x80 then ucast b else 0xFFFD])"

section \<open>The fetch based adapters\<close>

text \<open>
  What \<open>fetchClient\<close> resolves to, as far as \<open>connect\<close> reads it: \<open>response.ok\<close> and the
  reads of \<open>response.body?.getReader()\<close> (\<open>None\<close> when there is no body).
\<close>

record response =
  ok :: bool
  body :: "byte list list option"

datatype connect_error = HttpError | BodyNotReadable

definition data_prefix :: jsstring where
  "data_prefix = [0x64, 0x61, 0x74, 0x61, 0x3A, 0x20]"

definition done_marker :: jsstring where
  "done_marker = [0x5B, 0x44, 0x4F, 0x4E, 0x45, 0x5D]"

text \<open>
  \<open>JSON.parse\<close> is a parameter: \<open>None\<close> when it throws. The loops skip such lines.
\<close>

definition sse_line :: "(jsstring \<Rightarrow> 'c option) \<Rightarrow> jsstring \<Rightarrow> 'c list" where
  "sse_line json_parse line =
     (let data = (if starts_with line data_prefix then drop 6 line else line)
      in if data = done_marker then []
         else (case json_parse data of Some parsed \<Rightarrow> [parsed] | None \<Rightarrow> []))"

definition http_line :: "(jsstring \<Rightarrow> 'c option) \<Rightarrow> jsstring \<Rightarrow> 'c list" where
  "http_line json_parse line =
     (case json_parse line of Some parsed \<Rightarrow> [parsed] | None \<Rightarrow> [])"

definition fetchServerSentEvents ::
  "'d decoder_step \<Rightarrow> 'd \<Rightarrow> (jsstring \<Rightarrow> 'c option) \<Rightarrow> (nat \<Rightarrow> bool) \<Rightarrow> response
     \<Rightarrow> connect_error + 'c list"
where
  "fetchServerSentEvents step d0 json_parse aborted resp =
     (if \<not> ok resp then Inl HttpError
      else (case body resp of
              None \<Rightarrow> Inl BodyNotReadable
            | Some reads \<Rightarrow>
                Inr (concat (map (sse_line json_parse) (readStreamLines step d0 aborted reads)))))"

definition fetchHttpStream ::
  "'d decoder_step \<Rightarrow> 'd \<Rightarrow> (jsstring \<Rightarrow> 'c option) \<Rightarrow> (nat \<Rightarrow> bool) \<Rightarrow> response
     \<Rightarrow> connect_error + 'c list"
where
  "fetchHttpStream step d0 json_parse aborted resp =
     (if \<not> ok resp then Inl HttpError
      else (case body resp of
              None \<Rightarrow> Inl BodyNotReadable
            | Some reads \<Rightarrow>
                Inr (concat (map (http_line json_parse) (readStreamLines step d0 aborted reads)))))"

section \<open>The OpenAI adapter: data\<close>

text \<open>
  String literals of the source are written as Isabelle strings and converted to code
  units.
\<close>

definition js :: "string \<Rightarrow> jsstring" where
  "js s = map of_char s"

text \<open>\<open>String(n)\<close> for a non negative integer, as a template literal prints it.\<close>

function show_nat :: "nat \<Rightarrow> string" where
  "show_nat n =
     (if n < 10 then [char_of (48 + n)]
      else show_nat (n div 10) @ [char_of (48 + n mod 10)])"
  by pat_completeness auto
termination
  by (relation "measure id") auto

declare show_nat.simps [simp del]

text \<open>An optional string is truthy when it is present and not empty.\<close>

definition truthy_opt :: "jsstring option \<Rightarrow> bool" where
  "truthy_opt x = (case x of None \<Rightarrow> False | Some s \<Rightarrow> truthy s)"

text \<open>\<open>x || d\<close> on an optional string and on an optional number.\<close>

definition or_str :: "jsstring option \<Rightarrow> jsstring \<Rightarrow> jsstring" where
  "or_str x d = (case x of None \<Rightarrow> d | Some s \<Rightarrow> if truthy s then s else d)"

definition or_num :: "nat option \<Rightarrow> nat \<Rightarrow> nat" where
  "or_num x d = (case x of None \<Rightarrow> d | Some n \<Rightarrow> if n \<noteq> 0 then n else d)"

text \<open>JSON values, for the fields the adapter passes to \<open>JSON.stringify\<close>.\<close>

datatype json =
    JNull
  | JBool bool
  | JNum int
  | JStr jsstring
  | JArr "json list"
  | JObj "(jsstring \<times> json) list"

fun json_truthy :: "json \<Rightarrow> bool" where
  "json_truthy JNull = False"
| "json_truthy (JBool b) = b"
| "json_truthy (JNum n) = (n \<noteq> 0)"
| "json_truthy (JStr s) = truthy s"
| "json_truthy (JArr xs) = True"
| "json_truthy (JObj kvs) = True"

text \<open>
  The stream's events are \<open>any\<close> in the source. The model gives them the shape the code
  reads: every field is optional and has the type the code uses it at.
\<close>

record usage =
  input_tokens :: "nat option"
  prompt_tokens :: "nat option"
  output_tokens :: "nat option"
  completion_tokens :: "nat option"
  total_tokens :: "nat option"

record response_meta =
  resp_id :: "jsstring option"
  resp_model :: "jsstring option"
  resp_usage :: "usage option"

record content_part =
  part_type :: "jsstring option"
  part_text :: "jsstring option"

record item =
  item_type :: "jsstring option"
  item_call_id :: "jsstring option"
  item_name :: "jsstring option"
  item_arguments :: "json option"
  item_content :: "content_part list option"
  item_status :: "jsstring option"

datatype text_delta = DeltaArray "jsstring list" | DeltaString jsstring

text \<open>
  An element of \<open>delta.tool_calls\<close>: \<open>toolCall.id\<close>, \<open>toolCall.function?.name\<close>,
  \<open>toolCall.function?.arguments\<close> (a string when present) and \<open>toolCall.index\<close> (when it
  is a number).
\<close>

record tool_call_delta =
  tc_id :: "jsstring option"
  tc_name :: "jsstring option"
  tc_arguments :: "jsstring option"
  tc_index :: "int option"

record chat_delta =
  delta_content :: "jsstring option"
  delta_tool_calls :: "tool_call_delta list option"

record choice =
  choice_delta :: "chat_delta option"
  choice_finish_reason :: "jsstring option"

record event =
  ev_type :: "jsstring option"
  ev_response :: "response_meta option"
  ev_delta :: "text_delta option"
  ev_item :: "item option"
  ev_output :: "item list option"
  ev_choices :: "choice list option"
  ev_id :: "jsstring option"
  ev_model :: "jsstring option"
  ev_usage :: "usage option"

text \<open>The chunks the adapter yields, each with \<open>id\<close>, \<open>model\<close> and \<open>timestamp\<close>.\<close>

record usage_out =
  promptTokens :: nat
  completionTokens :: nat
  totalTokens :: nat

datatype stream_chunk =
    ContentChunk (chunk_id: jsstring) (chunk_model: jsstring) (chunk_timestamp: nat)
      (content_delta: jsstring) (content_text: jsstring)
  | ToolCallChunk (chunk_id: jsstring) (chunk_model: jsstring) (chunk_timestamp: nat)
      (call_id: jsstring) (call_name: jsstring) (call_arguments: jsstring) (call_index: int)
  | DoneChunk (chunk_id: jsstring) (chunk_model: jsstring) (chunk_timestamp: nat)
      (done_reason: jsstring) (done_usage: "usage_out option")
  | ErrorChunk (chunk_id: jsstring) (chunk_model: jsstring) (chunk_timestamp: nat)
      (error_message: jsstring) (error_code: "json option")

text \<open>
  What the adapter takes from its environment: \<open>generateId()\<close> and \<open>Date.now()\<close> (the
  result of the \<open>n\<close>-th call of each), \<open>options.model\<close> and \<open>JSON.stringify\<close>.
\<close>

record env =
  generateId :: "nat \<Rightarrow> jsstring"
  dateNow :: "nat \<Rightarrow> nat"
  options_model :: "jsstring option"
  stringify :: "json \<Rightarrow> jsstring"

text \<open>
  The local variables of \<open>processOpenAIStreamChunks\<close>, the \<open>toolCallMetadata\<close> map (a
  JavaScript \<open>Map\<close> keeps its entries in insertion order: an association list) and the
  numbers of calls of \<open>generateId\<close> and \<open>Date.now\<close> made so far.
\<close>

record tool_meta =
  meta_index :: nat
  meta_name :: jsstring

record adapter_state =
  accumulatedContent :: jsstring
  nextIndex :: nat
  chunkCount :: nat
  responseId :: "jsstring option"
  model :: "jsstring option"
  toolCallMetadata :: "(jsstring \<times> tool_meta) list"
  ids_made :: nat
  clock_reads :: nat

text \<open>
  A thrown value, as the \<open>catch\<close> block reads it. JavaScript can throw any value. On
  \<open>null\<close> and \<open>undefined\<close> the property access \<open>error.message\<close> itself throws a
  \<open>TypeError\<close>; on every other value it gives the value's \<open>message\<close>, and \<open>error.code\<close> its
  \<open>code\<close>, both absent on a primitive or on an object without them.
\<close>

record js_error =
  err_message :: "jsstring option"
  err_code :: "json option"

datatype thrown = ThrownNullish | ThrownValue js_error

datatype stream_end = StreamDone | StreamThrew thrown

text \<open>
  How a generator ends for its consumer: it returns, or an exception reaches the
  consumer: a value thrown outside the \<open>try\<close> block, or the \<open>TypeError\<close> raised inside the
  \<open>catch\<close> block.
\<close>

datatype outcome = Completed | Propagated thrown | CatchTypeError

section \<open>The OpenAI adapter: \<open>processOpenAIStreamChunks\<close>\<close>

text \<open>\<open>responseId || chunk.id || generateId()\<close>.\<close>

definition yield_id :: "env \<Rightarrow> adapter_state \<Rightarrow> event \<Rightarrow> jsstring \<times> adapter_state" where
  "yield_id env st ev =
     (if truthy_opt (responseId st) then (or_str (responseId st) [], st)
      else if truthy_opt (ev_id ev) then (or_str (ev_id ev) [], st)
      else (generateId env (ids_made st), st\<lparr>ids_made := Suc (ids_made st)\<rparr>))"

text \<open>\<open>model || chunk.model || options.model || "gpt-4o"\<close>.\<close>

definition yield_model :: "env \<Rightarrow> adapter_state \<Rightarrow> event \<Rightarrow> jsstring" where
  "yield_model env st ev =
     or_str (model st) (or_str (ev_model ev) (or_str (options_model env) (js ''gpt-4o'')))"

definition content_only :: "jsstring \<Rightarrow> chat_delta" where
  "content_only s = \<lparr>delta_content = Some s, delta_tool_calls = None\<rparr>"

text \<open>\<open>delta = delta || {}; delta.tool_calls = tcs\<close>.\<close>

definition with_tool_calls :: "chat_delta option \<Rightarrow> tool_call_delta list \<Rightarrow> chat_delta" where
  "with_tool_calls delta tcs =
     (case delta of
        None \<Rightarrow> \<lparr>delta_content = None, delta_tool_calls = Some tcs\<rparr>
      | Some d \<Rightarrow> d\<lparr>delta_tool_calls := Some tcs\<rparr>)"

text \<open>
  A \<open>function_call\<close> item as an element of \<open>delta.tool_calls\<close>:
  \<open>{id: item.call_id, function: {name: item.name,
  arguments: JSON.stringify(item.arguments || {})}}\<close>.
\<close>

definition item_tool_call :: "env \<Rightarrow> item \<Rightarrow> tool_call_delta" where
  "item_tool_call env it =
     \<lparr>tc_id = item_call_id it,
      tc_name = item_name it,
      tc_arguments =
        Some (stringify env
               (case item_arguments it of
                  None \<Rightarrow> JObj []
                | Some a \<Rightarrow> if json_truthy a then a else JObj [])),
      tc_index = None\<rparr>"

definition output_text :: "content_part list \<Rightarrow> content_part option" where
  "output_text parts = find (\<lambda>c. part_type c = Some (js ''output_text'')) parts"

text \<open>The block for \<open>response.output_text.delta\<close>.\<close>

definition text_delta_block :: "event \<Rightarrow> chat_delta option \<Rightarrow> chat_delta option" where
  "text_delta_block ev delta =
     (if ev_type ev = Some (js ''response.output_text.delta'') then
        (case ev_delta ev of
           None \<Rightarrow> delta
         | Some (DeltaArray xs) \<Rightarrow>
             if truthy (concat xs) then Some (content_only (concat xs)) else delta
         | Some (DeltaString s) \<Rightarrow>
             if truthy s then Some (content_only s) else delta)
      else delta)"

text \<open>The text of a \<open>message\<close> item that was added, against the content so far.\<close>

definition message_text_delta ::
  "adapter_state \<Rightarrow> item \<Rightarrow> chat_delta option \<Rightarrow> chat_delta option"
where
  "message_text_delta st it delta =
     (case item_content it of
        None \<Rightarrow> delta
      | Some parts \<Rightarrow>
          (case output_text parts of
             None \<Rightarrow> delta
           | Some textContent \<Rightarrow>
               if truthy_opt (part_text textContent) then
                 (let newContent = or_str (part_text textContent) []
                  in if length newContent > length (accumulatedContent st)
                        \<or> \<not> truthy (accumulatedContent st)
                     then Some (content_only newContent)
                     else (let deltaText = drop (length (accumulatedContent st)) newContent
                           in if truthy deltaText then Some (content_only deltaText) else delta))
               else delta))"

text \<open>The block for \<open>response.output_item.added\<close>.\<close>

definition item_added_block ::
  "env \<Rightarrow> adapter_state \<Rightarrow> event \<Rightarrow> chat_delta option \<times> jsstring option
     \<Rightarrow> chat_delta option \<times> jsstring option"
where
  "item_added_block env st ev df =
     (case df of (delta, finishReason) \<Rightarrow>
        if ev_type ev = Some (js ''response.output_item.added'') then
          (case ev_item ev of
             None \<Rightarrow> (delta, finishReason)
           | Some it \<Rightarrow>
               if item_type it = Some (js ''function_call'') then
                 (Some (with_tool_calls delta [item_tool_call env it]), finishReason)
               else if item_type it = Some (js ''message'') then
                 (message_text_delta st it delta,
                  if truthy_opt (item_status it) \<and> item_status it \<noteq> Some (js ''in_progress'')
                  then item_status it else finishReason)
               else (delta, finishReason))
        else (delta, finishReason))"

text \<open>The branch for the legacy format with an \<open>output\<close> array.\<close>

definition legacy_output_block ::
  "env \<Rightarrow> item list \<Rightarrow> chat_delta option \<times> jsstring option"
where
  "legacy_output_block env output =
     (let messageItem = find (\<lambda>it. item_type it = Some (js ''message'')) output;
          functionCallItems = filter (\<lambda>it. item_type it = Some (js ''function_call'')) output;
          delta1 =
            (case messageItem of
               None \<Rightarrow> None
             | Some m \<Rightarrow>
                 (case item_content m of
                    None \<Rightarrow> None
                  | Some parts \<Rightarrow>
                      (case output_text parts of
                         None \<Rightarrow> None
                       | Some textContent \<Rightarrow>
                           if truthy_opt (part_text textContent)
                           then Some (content_only (or_str (part_text textContent) []))
                           else None)));
          delta2 =
            (if length functionCallItems > 0
             then Some (with_tool_calls delta1 (map (item_tool_call env) functionCallItems))
             else delta1);
          finishReason =
            (case messageItem of
               None \<Rightarrow> None
             | Some m \<Rightarrow> if truthy_opt (item_status m) then item_status m else None)
      in (delta2, finishReason))"

text \<open>
  The first part of the loop body: \<open>delta\<close> and \<open>finishReason\<close> of an event, and the
  response metadata it leaves in the state.
\<close>

definition extract_delta ::
  "env \<Rightarrow> adapter_state \<Rightarrow> event \<Rightarrow> adapter_state \<times> chat_delta option \<times> jsstring option"
where
  "extract_delta env st ev =
     (if truthy_opt (ev_type ev) then
        (let st1 =
               (case ev_response ev of
                  None \<Rightarrow> st
                | Some r \<Rightarrow> st\<lparr>responseId := resp_id r, model := resp_model r\<rparr>);
             delta1 = text_delta_block ev None;
             df2 = item_added_block env st1 ev (delta1, None);
             finishReason =
               (if ev_type ev = Some (js ''response.done'') then Some (js ''stop'') else snd df2)
         in (st1, fst df2, finishReason))
      else
        (case ev_output ev of
           Some output \<Rightarrow>
             (case legacy_output_block env output of (delta, finishReason) \<Rightarrow>
                (st, delta, finishReason))
         | None \<Rightarrow>
             (case ev_choices ev of
                None \<Rightarrow> (st, None, None)
              | Some [] \<Rightarrow> (st, None, None)
              | Some (c # cs) \<Rightarrow> (st, choice_delta c, choice_finish_reason c))))"

text \<open>\<open>if (delta?.content)\<close>: the content chunk.\<close>

definition emit_content ::
  "env \<Rightarrow> nat \<Rightarrow> adapter_state \<Rightarrow> event \<Rightarrow> chat_delta option
     \<Rightarrow> adapter_state \<times> stream_chunk list"
where
  "emit_content env timestamp st ev delta =
     (case delta of
        None \<Rightarrow> (st, [])
      | Some d \<Rightarrow>
          if truthy_opt (delta_content d) then
            (let c = or_str (delta_content d) [];
                 st1 = st\<lparr>accumulatedContent := accumulatedContent st @ c\<rparr>
             in (case yield_id env st1 ev of
                   (cid, st2) \<Rightarrow>
                     (st2, [ContentChunk cid (yield_model env st2 ev) timestamp c
                              (accumulatedContent st2)])))
          else (st, []))"

text \<open>
  The body of \<open>for (const toolCall of delta.tool_calls)\<close> up to the \<open>yield\<close>: the new
  state with \<open>toolCallId\<close>, \<open>toolCallName\<close>, \<open>toolCallArgs\<close> and \<open>actualIndex\<close>.
\<close>

definition entry_at :: "(jsstring \<times> tool_meta) list \<Rightarrow> int \<Rightarrow> (jsstring \<times> tool_meta) option" where
  "entry_at md i = (if 0 \<le> i \<and> i < int (length md) then Some (md ! nat i) else None)"

definition resolve_tool_call ::
  "env \<Rightarrow> adapter_state \<Rightarrow> tool_call_delta
     \<Rightarrow> adapter_state \<times> jsstring \<times> jsstring \<times> jsstring \<times> int"
where
  "resolve_tool_call env st toolCall =
     (if truthy_opt (tc_id toolCall) then
        (let toolCallId = or_str (tc_id toolCall) [];
             toolCallName = or_str (tc_name toolCall) [];
             toolCallArgs =
               (case tc_arguments toolCall of
                  Some s \<Rightarrow> s
                | None \<Rightarrow> stringify env (JObj []))
         in (case map_of (toolCallMetadata st) toolCallId of
               Some meta \<Rightarrow> (st, toolCallId, toolCallName, toolCallArgs, int (meta_index meta))
             | None \<Rightarrow>
                 (st\<lparr>toolCallMetadata :=
                        toolCallMetadata st
                        @ [(toolCallId, \<lparr>meta_index = nextIndex st, meta_name = toolCallName\<rparr>)],
                      nextIndex := Suc (nextIndex st)\<rparr>,
                  toolCallId, toolCallName, toolCallArgs, int (nextIndex st))))
      else
        (let openAIIndex = (case tc_index toolCall of Some i \<Rightarrow> i | None \<Rightarrow> 0)
         in (case entry_at (toolCallMetadata st) openAIIndex of
               Some (tid, meta) \<Rightarrow>
                 (st, tid, meta_name meta, or_str (tc_arguments toolCall) [],
                  int (meta_index meta))
             | None \<Rightarrow>
                 (st\<lparr>clock_reads := Suc (clock_reads st)\<rparr>,
                  js ''call_'' @ js (show_nat (dateNow env (clock_reads st))),
                  [], [], openAIIndex))))"

fun tool_calls_loop ::
  "env \<Rightarrow> nat \<Rightarrow> event \<Rightarrow> adapter_state \<Rightarrow> tool_call_delta list
     \<Rightarrow> adapter_state \<times> stream_chunk list"
where
  "tool_calls_loop env timestamp ev st [] = (st, [])"
| "tool_calls_loop env timestamp ev st (toolCall # rest) =
     (case resolve_tool_call env st toolCall of
        (st1, toolCallId, toolCallName, toolCallArgs, actualIndex) \<Rightarrow>
          (case yield_id env st1 ev of
             (cid, st2) \<Rightarrow>
               (case tool_calls_loop env timestamp ev st2 rest of
                  (st3, out) \<Rightarrow>
                    (st3,
                     ToolCallChunk cid (yield_model env st2 ev) timestamp
                       toolCallId toolCallName toolCallArgs actualIndex # out))))"

definition emit_tool_calls ::
  "env \<Rightarrow> nat \<Rightarrow> adapter_state \<Rightarrow> event \<Rightarrow> chat_delta option
     \<Rightarrow> adapter_state \<times> stream_chunk list"
where
  "emit_tool_calls env timestamp st ev delta =
     (case delta of
        None \<Rightarrow> (st, [])
      | Some d \<Rightarrow>
          (case delta_tool_calls d of
             None \<Rightarrow> (st, [])
           | Some tcs \<Rightarrow> tool_calls_loop env timestamp ev st tcs))"

text \<open>\<open>if (finishReason && finishReason !== "in_progress")\<close>: the done chunk.\<close>

definition usage_of :: "usage \<Rightarrow> usage_out" where
  "usage_of u =
     \<lparr>promptTokens = or_num (input_tokens u) (or_num (prompt_tokens u) 0),
      completionTokens = or_num (output_tokens u) (or_num (completion_tokens u) 0),
      totalTokens = or_num (total_tokens u) 0\<rparr>"

definition event_usage :: "event \<Rightarrow> usage option" where
  "event_usage ev =
     (case ev_response ev of
        None \<Rightarrow> ev_usage ev
      | Some r \<Rightarrow> (case resp_usage r of None \<Rightarrow> ev_usage ev | Some u \<Rightarrow> Some u))"

definition emit_done ::
  "env \<Rightarrow> nat \<Rightarrow> adapter_state \<Rightarrow> event \<Rightarrow> jsstring option
     \<Rightarrow> adapter_state \<times> stream_chunk list"
where
  "emit_done env timestamp st ev finishReason =
     (if truthy_opt finishReason \<and> finishReason \<noteq> Some (js ''in_progress'') then
        (case yield_id env st ev of
           (cid, st1) \<Rightarrow>
             (st1, [DoneChunk cid (yield_model env st1 ev) timestamp (or_str finishReason [])
                      (map_option usage_of (event_usage ev))]))
      else (st, []))"

text \<open>The body of \<open>for await (const chunk of stream)\<close>.\<close>

definition process_chunk ::
  "env \<Rightarrow> nat \<Rightarrow> adapter_state \<Rightarrow> event \<Rightarrow> adapter_state \<times> stream_chunk list"
where
  "process_chunk env timestamp st0 ev =
     (case extract_delta env (st0\<lparr>chunkCount := Suc (chunkCount st0)\<rparr>) ev of
        (st1, delta, finishReason) \<Rightarrow>
          (case emit_content env timestamp st1 ev delta of
             (st2, out1) \<Rightarrow>
               (case emit_tool_calls env timestamp st2 ev delta of
                  (st3, out2) \<Rightarrow>
                    (case emit_done env timestamp st3 ev finishReason of
                       (st4, out3) \<Rightarrow> (st4, out1 @ out2 @ out3)))))"

fun process_events ::
  "env \<Rightarrow> nat \<Rightarrow> adapter_state \<Rightarrow> event list \<Rightarrow> adapter_state \<times> stream_chunk list"
where
  "process_events env timestamp st [] = (st, [])"
| "process_events env timestamp st (ev # evs) =
     (case process_chunk env timestamp st ev of
        (st1, out1) \<Rightarrow>
          (case process_events env timestamp st1 evs of
             (st2, out2) \<Rightarrow> (st2, out1 @ out2)))"

text \<open>
  The state at the start of the \<open>try\<close> block; \<open>timestamp\<close> has taken the first reading of
  the clock.
\<close>

definition initial_state :: "(jsstring \<times> tool_meta) list \<Rightarrow> adapter_state" where
  "initial_state md =
     \<lparr>accumulatedContent = [], nextIndex = 0, chunkCount = 0, responseId = None,
      model = None, toolCallMetadata = md, ids_made = 0, clock_reads = 1\<rparr>"

text \<open>
  The \<open>catch\<close> block builds the chunk it yields: \<open>generateId()\<close>, the model, the
  timestamp, then \<open>error.message\<close> and \<open>error.code\<close>. On a thrown \<open>null\<close> or \<open>undefined\<close> the
  read of \<open>error.message\<close> throws and there is no chunk (\<open>None\<close>).
\<close>

definition caught_error_chunk ::
  "env \<Rightarrow> nat \<Rightarrow> adapter_state \<Rightarrow> thrown \<Rightarrow> stream_chunk option"
where
  "caught_error_chunk env timestamp st t =
     (case t of
        ThrownNullish \<Rightarrow> None
      | ThrownValue e \<Rightarrow>
          Some (ErrorChunk (generateId env (ids_made st))
                  (or_str (options_model env) (js ''gpt-3.5-turbo''))
                  timestamp
                  (or_str (err_message e) (js ''Unknown error occurred''))
                  (err_code e)))"

text \<open>
  \<open>processOpenAIStreamChunks\<close>. The stream is the list of the events it delivers and the
  way it ends. The result is the list of the chunks yielded and the generator's
  outcome. An exception of the stream is caught; one raised by the \<open>catch\<close> block leaves
  the generator.
\<close>

definition processOpenAIStreamChunks ::
  "env \<Rightarrow> (jsstring \<times> tool_meta) list \<Rightarrow> event list \<times> stream_end
     \<Rightarrow> stream_chunk list \<times> outcome"
where
  "processOpenAIStreamChunks env md stream =
     (case stream of (events, ending) \<Rightarrow>
        (let timestamp = dateNow env 0 in
         case process_events env timestamp (initial_state md) events of
           (st, out) \<Rightarrow>
             (case ending of
                StreamDone \<Rightarrow> (out, Completed)
              | StreamThrew t \<Rightarrow>
                  (case caught_error_chunk env timestamp st t of
                     Some chunk \<Rightarrow> (out @ [chunk], Completed)
                   | None \<Rightarrow> (out, CatchTypeError)))))"

section \<open>The OpenAI adapter: \<open>parseResponsesStream\<close> and \<open>chatStream\<close>\<close>

text \<open>
  \<open>JSON.parse\<close> of a line, as an event: \<open>None\<close> when it throws. A thrown \<open>read()\<close> leaves
  the generator through \<open>finally\<close>: the events yielded before it stand, the buffer is
  dropped.
\<close>

definition parse_line :: "(jsstring \<Rightarrow> event option) \<Rightarrow> jsstring \<Rightarrow> event list" where
  "parse_line json_parse line =
     (let trimmed = trim line
      in if \<not> truthy trimmed then []
         else (case json_parse trimmed of Some parsed \<Rightarrow> [parsed] | None \<Rightarrow> []))"

fun parse_loop ::
  "'d decoder_step \<Rightarrow> (jsstring \<Rightarrow> event option) \<Rightarrow> 'd \<Rightarrow> jsstring \<Rightarrow> byte list list
     \<Rightarrow> stream_end \<Rightarrow> event list \<times> stream_end"
where
  "parse_loop step json_parse d buffer [] ending =
     (case ending of
        StreamDone \<Rightarrow> (parse_line json_parse buffer, StreamDone)
      | StreamThrew e \<Rightarrow> ([], StreamThrew e))"
| "parse_loop step json_parse d buffer (v # reads) ending =
     (case decode step d v of
        (d', text) \<Rightarrow>
          (case parse_loop step json_parse d'
                  (pop_or_empty (split_on newline (buffer @ text))) reads ending of
             (evs, ending') \<Rightarrow>
               (concat (map (parse_line json_parse) (butlast (split_on newline (buffer @ text))))
                @ evs, ending')))"

definition parseResponsesStream ::
  "'d decoder_step \<Rightarrow> 'd \<Rightarrow> (jsstring \<Rightarrow> event option) \<Rightarrow> byte list list \<times> stream_end
     \<Rightarrow> event list \<times> stream_end"
where
  "parseResponsesStream step d0 json_parse raw =
     (case raw of (reads, ending) \<Rightarrow> parse_loop step json_parse d0 [] reads ending)"

text \<open>
  What \<open>chatStream\<close> gets before it iterates: \<open>mapChatOptionsToOpenAI\<close>,
  \<open>client.responses.create\<close> or \<open>response.toReadableStream\<close> throws, outside any \<open>try\<close>,
  or the raw stream is opened: the values its reader returns and the way it ends.
\<close>

datatype request = Rejected thrown | Opened "byte list list" stream_end

definition chatStream ::
  "env \<Rightarrow> 'd decoder_step \<Rightarrow> 'd \<Rightarrow> (jsstring \<Rightarrow> event option) \<Rightarrow> request
     \<Rightarrow> stream_chunk list \<times> outcome"
where
  "chatStream env step d0 json_parse req =
     (case req of
        Rejected e \<Rightarrow> ([], Propagated e)
      | Opened reads ending \<Rightarrow>
          processOpenAIStreamChunks env []
            (parseResponsesStream step d0 json_parse (reads, ending)))"

section \<open>The OpenAI adapter: the metadata table and example inputs\<close>



text \<open>
  Inputs for the examples: an environment whose ids are \<open>id0\<close>, \<open>id1\<close>, ... and whose
  clock reads 1000, 1001, ... (its \<open>stringify\<close> is right on the empty object, the
  only value the examples pass to it), an event without fields, the Chat Completions
  event that carries tool call deltas, and a stand-in for \<open>JSON.parse\<close> that reads
  every line as an \<open>output_text\<close> delta whose text is the line.
\<close>

definition example_env :: env where
  "example_env =
     \<lparr>generateId = (\<lambda>n. js ''id'' @ js (show_nat n)),
      dateNow = (\<lambda>n. 1000 + n),
      options_model = None,
      stringify = (\<lambda>j. case j of JObj [] \<Rightarrow> js ''{}'' | _ \<Rightarrow> js ''null'')\<rparr>"

definition no_event :: event where
  "no_event =
     \<lparr>ev_type = None, ev_response = None, ev_delta = None, ev_item = None,
      ev_output = None, ev_choices = None, ev_id = None, ev_model = None, ev_usage = None\<rparr>"


definition text_line_parse :: "jsstring \<Rightarrow> event option" where
  "text_line_parse line =
     Some (no_event\<lparr>ev_type := Some (js ''response.output_text.delta''),
                     ev_delta := Some (DeltaString line)\<rparr>)"

section \<open>ToolCallManager\<close>

text \<open>
  Modelled from the spec: \<open>ToolCallManager\<close> (\<open>tools/tool-calls.ts\<close>; the sources have its
  reference page \<open>docs/reference/classes/ToolCallManager.md\<close>, not its code): the
  accumulator entry of section 3 and \<open>addToolCallChunk\<close>, \<open>getToolCalls\<close> and \<open>clear\<close>
  of section 4.3.

  The chunk is the parameter of \<open>addToolCallChunk\<close> as the reference page types it:
  \<open>index\<close>, \<open>toolCall.id\<close>, \<open>toolCall.function.name\<close> and
  \<open>toolCall.function.arguments\<close>. An entry is \<open>{id, name, argumentsBuffer, index}\<close>. The
  manager keeps its entries in the order of their first sighting (the original call
  order) and the index to id table built on first sighting.
\<close>

record tool_call_chunk =
  tcc_index :: int
  tcc_id :: jsstring
  tcc_name :: jsstring
  tcc_arguments :: jsstring

record tool_call =
  acc_id :: jsstring
  acc_name :: jsstring
  acc_buffer :: jsstring
  acc_index :: int

record manager =
  entries :: "tool_call list"
  index_table :: "(int \<times> jsstring) list"

definition empty_manager :: manager where
  "empty_manager = \<lparr>entries = [], index_table = []\<rparr>"

text \<open>Modelled from the spec: \<open>clear()\<close> resets the accumulator.\<close>

definition clear :: "manager \<Rightarrow> manager" where
  "clear m = empty_manager"

definition known_id :: "manager \<Rightarrow> jsstring \<Rightarrow> bool" where
  "known_id m i \<longleftrightarrow> i \<in> set (map acc_id (entries m))"

definition append_arguments :: "jsstring \<Rightarrow> jsstring \<Rightarrow> tool_call list \<Rightarrow> tool_call list" where
  "append_arguments i fragment es =
     map (\<lambda>e. if acc_id e = i then e\<lparr>acc_buffer := acc_buffer e @ fragment\<rparr> else e) es"

text \<open>
  Modelled from the spec: \<open>addToolCallChunk\<close>. A chunk that carries an id is addressed to
  that id, whatever its index; a chunk without id is resolved through the table. On
  first sight of an id the entry and the table row are registered, the fragment
  starting the buffer; afterwards the fragment is appended to the id's buffer. The spec
  does not say what a fragment does that carries no id and an index the table does not
  have: here it leaves the accumulator as it is.
\<close>

definition addToolCallChunk :: "manager \<Rightarrow> tool_call_chunk \<Rightarrow> manager" where
  "addToolCallChunk m chunk =
     (case (if truthy (tcc_id chunk) then Some (tcc_id chunk)
            else map_of (index_table m) (tcc_index chunk)) of
        None \<Rightarrow> m
      | Some i \<Rightarrow>
          if known_id m i
          then m\<lparr>entries := append_arguments i (tcc_arguments chunk) (entries m)\<rparr>
          else m\<lparr>entries :=
                   entries m
                   @ [\<lparr>acc_id = i, acc_name = tcc_name chunk,
                        acc_buffer = tcc_arguments chunk, acc_index = tcc_index chunk\<rparr>],
                 index_table := index_table m @ [(tcc_index chunk, i)]\<rparr>)"

definition addToolCallChunks :: "manager \<Rightarrow> tool_call_chunk list \<Rightarrow> manager" where
  "addToolCallChunks m chunks = foldl addToolCallChunk m chunks"

text \<open>
  Modelled from the spec: \<open>getToolCalls\<close> returns the entries with a non empty id and a
  non empty name.
\<close>

definition getToolCalls :: "manager \<Rightarrow> tool_call list" where
  "getToolCalls m = filter (\<lambda>e. truthy (acc_id e) \<and> truthy (acc_name e)) (entries m)"

text \<open>
  The fragments of one call as chunks: the id on every chunk, and on each chunk its own
  index, name and fragment.
\<close>

definition fragment_chunks ::
  "jsstring \<Rightarrow> (int \<times> jsstring \<times> jsstring) list \<Rightarrow> tool_call_chunk list"
where
  "fragment_chunks i fragments =
     map (\<lambda>(k, name, fragment).
            \<lparr>tcc_index = k, tcc_id = i, tcc_name = name, tcc_arguments = fragment\<rparr>) fragments"

definition fragment_text :: "(int \<times> jsstring \<times> jsstring) list \<Rightarrow> jsstring" where
  "fragment_text fragments = concat (map (\<lambda>(k, name, fragment). fragment) fragments)"

section \<open>ToolCallManager: example input\<close>

text \<open>A stand-in for \<open>JSON.parse\<close> on the texts of the examples.\<close>

definition example_json_parse :: "jsstring \<Rightarrow> json option" where
  "example_json_parse s =
     (if s = js ''{}'' then Some (JObj [])
      else if s = js ''[1,2]'' then Some (JArr [JNum 1, JNum 2])
      else None)"

section \<open>Properties of the line reader\<close>

lemma split_on_nonempty: "split_on sep s \<noteq> []"
  by (induction s) (auto split: list.splits)

lemma split_on_no_sep: "sep \<notin> set s \<Longrightarrow> split_on sep s = [s]"
  by (induction s) auto

lemma last_split_no_sep: "sep \<notin> set (last (split_on sep s))"
  by (induction s) (auto split: list.splits simp: split_on_nonempty)

text \<open>
  Splitting a text that arrives in two parts: the complete pieces of the first part, then
  the split of its unfinished last piece followed by the second part.
\<close>

lemma split_on_append:
  "split_on sep (a @ b) = butlast (split_on sep a) @ split_on sep (last (split_on sep a) @ b)"
proof (induction a)
  case Nil
  show ?case by simp
next
  case (Cons c a)
  show ?case
  proof (cases "c = sep")
    case True
    with Cons show ?thesis by (simp add: split_on_nonempty)
  next
    case False
    obtain l ls where s: "split_on sep a = l # ls"
      using split_on_nonempty [of sep a] by (cases "split_on sep a") auto
    show ?thesis
    proof (cases ls)
      case Nil
      with s False Cons show ?thesis by simp
    next
      case (Cons l2 ls2)
      with s False Cons.IH show ?thesis by simp
    qed
  qed
qed

lemma decode_append:
  "decode step d (a @ b) =
     (case decode step d a of
        (d1, o1) \<Rightarrow> (case decode step d1 b of (d2, o2) \<Rightarrow> (d2, o1 @ o2)))"
  by (induction a arbitrary: d) (auto split: prod.splits)

lemma read_loop_lines:
  "newline \<notin> set buffer \<Longrightarrow>
   read_loop step never_aborted k d buffer reads
     = lines_of (buffer @ snd (decode step d (concat reads)))"
proof (induction reads arbitrary: k d buffer)
  case Nil
  then show ?case
    by (simp add: lines_of_def remaining_def split_on_no_sep)
next
  case (Cons v reads)
  obtain d1 out where dv: "decode step d v = (d1, out)"
    by (cases "decode step d v")
  obtain d2 rest where dr: "decode step d1 (concat reads) = (d2, rest)"
    by (cases "decode step d1 (concat reads)")
  let ?b = "pop_or_empty (split_on newline (buffer @ out))"
  have b: "?b = last (split_on newline (buffer @ out))"
    by (simp add: pop_or_empty_def split_on_nonempty)
  have nn: "newline \<notin> set ?b"
    unfolding b by (rule last_split_no_sep)
  have "read_loop step never_aborted k d buffer (v # reads)
      = complete_lines (buffer @ out) @ read_loop step never_aborted (Suc k) d1 ?b reads"
    by (simp add: dv never_aborted_def)
  also have "\<dots> = complete_lines (buffer @ out) @ lines_of (?b @ rest)"
    using Cons.IH [OF nn, of "Suc k" d1] by (simp add: dr)
  also have "\<dots> = lines_of ((buffer @ out) @ rest)"
    unfolding lines_of_def complete_lines_def b
    by (subst split_on_append [of newline "buffer @ out" rest]) simp
  also have "(buffer @ out) @ rest = buffer @ snd (decode step d (concat (v # reads)))"
    by (simp add: decode_append dv dr)
  finally show ?case .
qed

text \<open>
  Without an abort, the reader yields the non blank lines of the decoded concatenation
  of everything it read.
\<close>

lemma readStreamLines_lines:
  "readStreamLines step d0 never_aborted reads = lines_of (snd (decode step d0 (concat reads)))"
  using read_loop_lines [of "[]" step 0 d0 reads] by (simp add: readStreamLines_def)

text \<open>
  C10. Two segmentations of the same bytes into successive \<open>read()\<close> results give the
  same lines, and so the same chunks from \<open>fetchHttpStream\<close> and
  \<open>fetchServerSentEvents\<close>, in a run that is not aborted.
\<close>

theorem readStreamLines_segmentation:
  assumes "concat reads1 = concat reads2"
  shows "readStreamLines step d0 never_aborted reads1
           = readStreamLines step d0 never_aborted reads2
       \<and> fetchHttpStream step d0 json_parse never_aborted (resp\<lparr>body := Some reads1\<rparr>)
           = fetchHttpStream step d0 json_parse never_aborted (resp\<lparr>body := Some reads2\<rparr>)
       \<and> fetchServerSentEvents step d0 json_parse never_aborted (resp\<lparr>body := Some reads1\<rparr>)
           = fetchServerSentEvents step d0 json_parse never_aborted (resp\<lparr>body := Some reads2\<rparr>)"
proof -
  have "readStreamLines step d0 never_aborted reads1
          = readStreamLines step d0 never_aborted reads2"
    using assms by (simp add: readStreamLines_lines)
  then show ?thesis
    by (simp add: fetchHttpStream_def fetchServerSentEvents_def)
qed

theorem readStreamLines_segmentation_witness:
  "readStreamLines ascii_step () never_aborted [[0x61, 0x0A, 0x62], [0x63, 0x0A, 0x20, 0x0A, 0x64]]
     = readStreamLines ascii_step () never_aborted [[0x61], [0x0A, 0x62, 0x63, 0x0A, 0x20], [0x0A, 0x64]]
   \<and> readStreamLines ascii_step () never_aborted [[0x61, 0x0A, 0x62], [0x63, 0x0A, 0x20, 0x0A, 0x64]]
     = [[0x61], [0x62, 0x63], [0x64]]
   \<and> fetchHttpStream ascii_step () Some never_aborted
       \<lparr>ok = True, body = Some [[0x61], [0x0A, 0x62, 0x63, 0x0A, 0x20], [0x0A, 0x64]]\<rparr>
     = Inr [[0x61], [0x62, 0x63], [0x64]]"
proof -
  have h: "concat [[0x61, 0x0A, 0x62], [0x63, 0x0A, 0x20, 0x0A, 0x64 :: byte]]
         = concat [[0x61], [0x0A, 0x62, 0x63, 0x0A, 0x20], [0x0A, 0x64]]"
    by simp
  have v: "readStreamLines ascii_step () never_aborted
             [[0x61, 0x0A, 0x62], [0x63, 0x0A, 0x20, 0x0A, 0x64]] = [[0x61], [0x62, 0x63], [0x64]]"
    by (simp add: readStreamLines_def never_aborted_def complete_lines_def remaining_def
          pop_or_empty_def truthy_def trim_def is_js_whitespace_def newline_def ascii_step_def)
  have e: "readStreamLines ascii_step () never_aborted
             [[0x61, 0x0A, 0x62], [0x63, 0x0A, 0x20, 0x0A, 0x64]]
         = readStreamLines ascii_step () never_aborted
             [[0x61], [0x0A, 0x62, 0x63, 0x0A, 0x20], [0x0A, 0x64]]"
    using readStreamLines_segmentation [OF h, of ascii_step "()"] by (rule conjunct1)
  have v2: "readStreamLines ascii_step () never_aborted
              [[0x61], [0x0A, 0x62, 0x63, 0x0A, 0x20], [0x0A, 0x64]] = [[0x61], [0x62, 0x63], [0x64]]"
    using e v by (rule subst)
  show ?thesis
    by (simp add: v v2 fetchHttpStream_def http_line_def)
qed

section \<open>Properties of the OpenAI adapter\<close>














lemma emit_content_no_error:
  "emit_content env ts st ev delta = (st', out) \<Longrightarrow> c \<in> set out \<Longrightarrow> \<not> is_ErrorChunk c"
  by (auto simp: emit_content_def Let_def split: option.splits if_splits prod.splits)

lemma emit_done_no_error:
  "emit_done env ts st ev fin = (st', out) \<Longrightarrow> c \<in> set out \<Longrightarrow> \<not> is_ErrorChunk c"
  by (auto simp: emit_done_def split: if_splits prod.splits)

lemma tool_calls_loop_no_error:
  "tool_calls_loop env ts ev st tcs = (st', out) \<Longrightarrow> c \<in> set out \<Longrightarrow> \<not> is_ErrorChunk c"
  by (induction tcs arbitrary: st st' out) (auto split: prod.splits)

lemma emit_tool_calls_no_error:
  "emit_tool_calls env ts st ev delta = (st', out) \<Longrightarrow> c \<in> set out \<Longrightarrow> \<not> is_ErrorChunk c"
  by (auto simp: emit_tool_calls_def split: option.splits dest: tool_calls_loop_no_error)

lemma process_chunk_no_error:
  assumes "process_chunk env ts st ev = (st', out)" and "c \<in> set out"
  shows "\<not> is_ErrorChunk c"
proof -
  obtain st1 delta fin where
    e: "extract_delta env (st\<lparr>chunkCount := Suc (chunkCount st)\<rparr>) ev = (st1, delta, fin)"
    by (cases "extract_delta env (st\<lparr>chunkCount := Suc (chunkCount st)\<rparr>) ev")
  obtain st2 out1 where c: "emit_content env ts st1 ev delta = (st2, out1)"
    by (cases "emit_content env ts st1 ev delta")
  obtain st3 out2 where t: "emit_tool_calls env ts st2 ev delta = (st3, out2)"
    by (cases "emit_tool_calls env ts st2 ev delta")
  obtain st4 out3 where d: "emit_done env ts st3 ev fin = (st4, out3)"
    by (cases "emit_done env ts st3 ev fin")
  have "out = out1 @ out2 @ out3"
    using assms(1) e c t d by (simp add: process_chunk_def)
  with assms(2) have "c \<in> set out1 \<or> c \<in> set out2 \<or> c \<in> set out3" by auto
  then show ?thesis
    using emit_content_no_error [OF c] emit_tool_calls_no_error [OF t] emit_done_no_error [OF d]
    by blast
qed

lemma process_events_no_error:
  "process_events env ts st evs = (st', out) \<Longrightarrow> c \<in> set out \<Longrightarrow> \<not> is_ErrorChunk c"
proof (induction evs arbitrary: st st' out)
  case Nil
  then show ?case by simp
next
  case (Cons ev evs)
  obtain st1 out1 where p: "process_chunk env ts st ev = (st1, out1)"
    by (cases "process_chunk env ts st ev")
  obtain st2 out2 where q: "process_events env ts st1 evs = (st2, out2)"
    by (cases "process_events env ts st1 evs")
  have "out = out1 @ out2" using Cons.prems(1) p q by simp
  with Cons.prems(2) have "c \<in> set out1 \<or> c \<in> set out2" by auto
  then show ?case
    using process_chunk_no_error [OF p] Cons.IH [OF q] by blast
qed

lemma parse_loop_threw:
  "snd (parse_loop step json_parse d buffer reads (StreamThrew e)) = StreamThrew e"
proof (induction reads arbitrary: d buffer)
  case Nil
  show ?case by simp
next
  case (Cons v reads)
  obtain d1 out where dv: "decode step d v = (d1, out)"
    by (cases "decode step d v")
  show ?case
    using Cons.IH [of d1 "pop_or_empty (split_on newline (buffer @ out))"]
    by (cases "parse_loop step json_parse d1
                 (pop_or_empty (split_on newline (buffer @ out))) reads (StreamThrew e)")
       (simp add: dv)
qed

lemma chatStream_opened:
  assumes "parse_loop step json_parse d0 [] reads (StreamThrew t) = (events, StreamThrew t)"
    and "process_events env (dateNow env 0) (initial_state []) events = (st, out)"
  shows "chatStream env step d0 json_parse (Opened reads (StreamThrew t))
           = (case caught_error_chunk env (dateNow env 0) st t of
                Some chunk \<Rightarrow> (out @ [chunk], Completed)
              | None \<Rightarrow> (out, CatchTypeError))"
  using assms
  by (simp add: chatStream_def parseResponsesStream_def processOpenAIStreamChunks_def)

text \<open>
  C9, amended. When the raw stream that \<open>chatStream\<close> opened throws a value other than
  \<open>null\<close> and \<open>undefined\<close> after any reads, the generator completes: it yields the chunks
  of the events read before the throw, none of them an error chunk, and then one error
  chunk with the value's \<open>message\<close> (or \<open>Unknown error occurred\<close> when that is absent or
  empty) and its \<open>code\<close>. An exception of the request that opens the stream is thrown
  outside the \<open>try\<close> block and reaches the consumer, with no chunk yielded.
\<close>

theorem chatStream_stream_error:
  fixes env step d0 json_parse reads e t
  defines "events \<equiv>
             fst (parseResponsesStream step d0 json_parse (reads, StreamThrew (ThrownValue e)))"
  defines "run \<equiv> process_events env (dateNow env 0) (initial_state []) events"
  shows "chatStream env step d0 json_parse (Opened reads (StreamThrew (ThrownValue e)))
           = (snd run
              @ [ErrorChunk (generateId env (ids_made (fst run)))
                   (or_str (options_model env) (js ''gpt-3.5-turbo'')) (dateNow env 0)
                   (or_str (err_message e) (js ''Unknown error occurred'')) (err_code e)],
              Completed)
       \<and> (\<forall>c \<in> set (snd run). \<not> is_ErrorChunk c)
       \<and> chatStream env step d0 json_parse (Rejected t) = ([], Propagated t)"
proof -
  have p: "parse_loop step json_parse d0 [] reads (StreamThrew (ThrownValue e))
             = (events, StreamThrew (ThrownValue e))"
    using parse_loop_threw [of step json_parse d0 "[]" reads "ThrownValue e"]
    by (cases "parse_loop step json_parse d0 [] reads (StreamThrew (ThrownValue e))")
       (simp add: events_def parseResponsesStream_def)
  obtain st out where r: "run = (st, out)"
    by (cases run)
  have "chatStream env step d0 json_parse (Opened reads (StreamThrew (ThrownValue e)))
          = (out @ [ErrorChunk (generateId env (ids_made st))
                      (or_str (options_model env) (js ''gpt-3.5-turbo'')) (dateNow env 0)
                      (or_str (err_message e) (js ''Unknown error occurred'')) (err_code e)],
             Completed)"
    using chatStream_opened [OF p r [unfolded run_def]]
    by (simp add: caught_error_chunk_def)
  moreover have "\<forall>c \<in> set out. \<not> is_ErrorChunk c"
    using process_events_no_error [OF r [unfolded run_def]] by blast
  moreover have "chatStream env step d0 json_parse (Rejected t) = ([], Propagated t)"
    by (simp add: chatStream_def)
  ultimately show ?thesis
    by (simp add: r)
qed

theorem chatStream_stream_error_witness:
  "chatStream example_env ascii_step () text_line_parse
     (Opened [[0x68, 0x69, 0x0A, 0x68]]
        (StreamThrew
           (ThrownValue \<lparr>err_message = Some (js ''boom''), err_code = Some (JStr (js ''E1''))\<rparr>)))
   = ([ContentChunk (js ''id0'') (js ''gpt-4o'') 1000 (js ''hi'') (js ''hi''),
       ErrorChunk (js ''id1'') (js ''gpt-3.5-turbo'') 1000 (js ''boom'') (Some (JStr (js ''E1'')))],
      Completed)"
proof -
  let ?e = "\<lparr>err_message = Some (js ''boom''), err_code = Some (JStr (js ''E1''))\<rparr>"
  let ?run = "process_events example_env (dateNow example_env 0) (initial_state [])
                (fst (parseResponsesStream ascii_step () text_line_parse
                        ([[0x68, 0x69, 0x0A, 0x68]], StreamThrew (ThrownValue ?e))))"
  have v: "(snd ?run
              @ [ErrorChunk (generateId example_env (ids_made (fst ?run)))
                   (or_str (options_model example_env) (js ''gpt-3.5-turbo''))
                   (dateNow example_env 0)
                   (or_str (err_message ?e) (js ''Unknown error occurred'')) (err_code ?e)],
            Completed)
         = ([ContentChunk (js ''id0'') (js ''gpt-4o'') 1000 (js ''hi'') (js ''hi''),
             ErrorChunk (js ''id1'') (js ''gpt-3.5-turbo'') 1000 (js ''boom'')
               (Some (JStr (js ''E1'')))],
            Completed)"
    by code_simp
  from chatStream_stream_error
         [of example_env ascii_step "()" text_line_parse "[[0x68, 0x69, 0x0A, 0x68]]" ?e,
          THEN conjunct1]
  show ?thesis
    unfolding v .
qed

text \<open>
  A thrown \<open>null\<close> or \<open>undefined\<close>: the \<open>catch\<close> block throws at \<open>error.message\<close>. The chunks
  of the events read before stand, no error chunk follows them and a \<open>TypeError\<close> reaches
  the consumer.
\<close>

lemma chatStream_thrown_nullish:
  fixes env step d0 json_parse reads
  defines "events \<equiv>
             fst (parseResponsesStream step d0 json_parse (reads, StreamThrew ThrownNullish))"
  defines "run \<equiv> process_events env (dateNow env 0) (initial_state []) events"
  shows "chatStream env step d0 json_parse (Opened reads (StreamThrew ThrownNullish))
           = (snd run, CatchTypeError)"
proof -
  have p: "parse_loop step json_parse d0 [] reads (StreamThrew ThrownNullish)
             = (events, StreamThrew ThrownNullish)"
    using parse_loop_threw [of step json_parse d0 "[]" reads ThrownNullish]
    by (cases "parse_loop step json_parse d0 [] reads (StreamThrew ThrownNullish)")
       (simp add: events_def parseResponsesStream_def)
  obtain st out where r: "run = (st, out)"
    by (cases run)
  show ?thesis
    using chatStream_opened [OF p r [unfolded run_def]]
    by (simp add: caught_error_chunk_def r)
qed

text \<open>
  C9 as the specification states it fails. The stream throws \<open>null\<close> after the line
  \<open>hi\<close>: the content chunk is yielded, no error chunk follows, and the generator ends
  with a \<open>TypeError\<close> for its consumer. The request is rejected with the error \<open>boom\<close>:
  no chunk is yielded and \<open>boom\<close> reaches the consumer.
\<close>

theorem chatStream_propagates_counterexample:
  "chatStream example_env ascii_step () text_line_parse
     (Opened [[0x68, 0x69, 0x0A, 0x68]] (StreamThrew ThrownNullish))
     = ([ContentChunk (js ''id0'') (js ''gpt-4o'') 1000 (js ''hi'') (js ''hi'')], CatchTypeError)
   \<and> chatStream example_env ascii_step () text_line_parse
       (Rejected (ThrownValue \<lparr>err_message = Some (js ''boom''), err_code = None\<rparr>))
     = ([], Propagated (ThrownValue \<lparr>err_message = Some (js ''boom''), err_code = None\<rparr>))"
  by code_simp



section \<open>Properties of ToolCallManager\<close>

text \<open>\<open>clear()\<close> on a cleared accumulator changes nothing.\<close>

lemma clear_idempotent: "clear (clear m) = clear m \<and> clear empty_manager = empty_manager"
  by (simp add: clear_def)

lemma append_arguments_append:
  "append_arguments i (a @ b) es = append_arguments i b (append_arguments i a es)"
  by (induction es) (simp_all add: append_arguments_def)

lemma append_arguments_ids: "map acc_id (append_arguments i a es) = map acc_id es"
  by (induction es) (simp_all add: append_arguments_def)

lemma known_id_append_arguments:
  "known_id (m\<lparr>entries := append_arguments i a (entries m)\<rparr>) j = known_id m j"
  by (simp add: known_id_def append_arguments_ids)

lemma addToolCallChunk_known:
  "truthy i \<Longrightarrow> known_id m i \<Longrightarrow>
     addToolCallChunk m \<lparr>tcc_index = k, tcc_id = i, tcc_name = name, tcc_arguments = fragment\<rparr>
       = m\<lparr>entries := append_arguments i fragment (entries m)\<rparr>"
  by (simp add: addToolCallChunk_def)

lemma addToolCallChunk_first:
  "truthy i \<Longrightarrow> \<not> known_id m i \<Longrightarrow>
     addToolCallChunk m \<lparr>tcc_index = k, tcc_id = i, tcc_name = name, tcc_arguments = fragment\<rparr>
       = m\<lparr>entries := entries m @ [\<lparr>acc_id = i, acc_name = name, acc_buffer = fragment,
                                        acc_index = k\<rparr>],
            index_table := index_table m @ [(k, i)]\<rparr>"
  by (simp add: addToolCallChunk_def)

lemma append_arguments_empty: "append_arguments i [] es = es"
  by (induction es) (simp_all add: append_arguments_def)

lemma addToolCallChunks_known:
  "truthy i \<Longrightarrow> known_id m i \<Longrightarrow>
     addToolCallChunks m (fragment_chunks i frs)
       = m\<lparr>entries := append_arguments i (fragment_text frs) (entries m)\<rparr>"
proof (induction frs arbitrary: m)
  case Nil
  show ?case
    by (simp add: addToolCallChunks_def fragment_chunks_def fragment_text_def
          append_arguments_empty)
next
  case (Cons fr frs)
  obtain k name f where fr: "fr = (k, name, f)" by (cases fr)
  let ?m1 = "m\<lparr>entries := append_arguments i f (entries m)\<rparr>"
  have k1: "known_id ?m1 i" using Cons.prems(2) by (simp add: known_id_append_arguments)
  have "addToolCallChunks m (fragment_chunks i (fr # frs))
      = addToolCallChunks ?m1 (fragment_chunks i frs)"
    using addToolCallChunk_known [OF Cons.prems, of k name f]
    by (simp add: addToolCallChunks_def fragment_chunks_def fr)
  also have "\<dots> = ?m1\<lparr>entries := append_arguments i (fragment_text frs) (entries ?m1)\<rparr>"
    using Cons.IH [OF Cons.prems(1) k1] .
  also have "\<dots> = m\<lparr>entries := append_arguments i (fragment_text (fr # frs)) (entries m)\<rparr>"
    by (simp add: fr append_arguments_append fragment_text_def)
  finally show ?case .
qed

text \<open>
  C5. A text split into one or more fragments that arrive as \<open>tool_call\<close> chunks
  sharing one call id, with any index on each chunk and the name on the first: after
  \<open>addToolCallChunk\<close> on each in arrival order the accumulator holds one call whose
  arguments are the text, so that parsing them gives what parsing the text gives.
\<close>

theorem accumulate_then_parse:
  assumes "truthy i" and "truthy name"
    and "fragment_text ((k, name, fragment) # rest) = text"
  shows "getToolCalls (addToolCallChunks empty_manager
                         (fragment_chunks i ((k, name, fragment) # rest)))
           = [\<lparr>acc_id = i, acc_name = name, acc_buffer = text, acc_index = k\<rparr>]
       \<and> map (\<lambda>call. json_parse (acc_buffer call))
           (getToolCalls (addToolCallChunks empty_manager
              (fragment_chunks i ((k, name, fragment) # rest))))
           = [json_parse text]"
proof -
  let ?m1 = "\<lparr>entries = [\<lparr>acc_id = i, acc_name = name, acc_buffer = fragment, acc_index = k\<rparr>],
              index_table = [(k, i)]\<rparr>"
  have n: "\<not> known_id empty_manager i" by (simp add: known_id_def empty_manager_def)
  have f: "addToolCallChunk empty_manager
             \<lparr>tcc_index = k, tcc_id = i, tcc_name = name, tcc_arguments = fragment\<rparr> = ?m1"
    using addToolCallChunk_first [OF assms(1) n, of k name fragment]
    by (simp add: empty_manager_def)
  have k1: "known_id ?m1 i" by (simp add: known_id_def)
  have t: "fragment @ fragment_text rest = text"
    using assms(3) by (simp add: fragment_text_def)
  have "addToolCallChunks empty_manager (fragment_chunks i ((k, name, fragment) # rest))
      = addToolCallChunks ?m1 (fragment_chunks i rest)"
    using f by (simp add: addToolCallChunks_def fragment_chunks_def)
  also have "\<dots> = ?m1\<lparr>entries := append_arguments i (fragment_text rest) (entries ?m1)\<rparr>"
    using addToolCallChunks_known [OF assms(1) k1] .
  finally have "getToolCalls (addToolCallChunks empty_manager
                  (fragment_chunks i ((k, name, fragment) # rest)))
      = [\<lparr>acc_id = i, acc_name = name, acc_buffer = text, acc_index = k\<rparr>]"
    using assms(1,2) t by (simp add: getToolCalls_def append_arguments_def)
  then show ?thesis by simp
qed

theorem accumulate_then_parse_witness:
  "getToolCalls (addToolCallChunks empty_manager
      (fragment_chunks (js ''c1'') [(0, js ''get_weather'', js ''[1,''), (3, [], js ''2]'')]))
     = [\<lparr>acc_id = js ''c1'', acc_name = js ''get_weather'', acc_buffer = js ''[1,2]'',
         acc_index = 0\<rparr>]
   \<and> map (\<lambda>call. example_json_parse (acc_buffer call))
       (getToolCalls (addToolCallChunks empty_manager
          (fragment_chunks (js ''c1'') [(0, js ''get_weather'', js ''[1,''), (3, [], js ''2]'')])))
     = [Some (JArr [JNum 1, JNum 2])]"
proof -
  have h1: "truthy (js ''c1'')" by code_simp
  have h2: "truthy (js ''get_weather'')" by code_simp
  have h3: "fragment_text [(0, js ''get_weather'', js ''[1,''), (3, [], js ''2]'')] = js ''[1,2]''"
    by code_simp
  have v: "example_json_parse (js ''[1,2]'') = Some (JArr [JNum 1, JNum 2])" by code_simp
  from accumulate_then_parse [OF h1 h2 h3, of example_json_parse] v
  show ?thesis by simp
qed

end
